theory Spec2Isabelle
  imports Main
begin

section \<open>FixIt CLI: the create, check and help actions\<close>

text \<open>
  The actions of \<^verbatim>\<open>src/bin/actions.ts\<close> and \<^verbatim>\<open>src/lib/actions.ts\<close> are sequences of
  calls to collaborators (prompts, spinners, simple-git, shelljs, the release fetch).
  A run of an action is modelled as the list of calls the action makes, in the order it
  makes them, together with the way the run ends. What each collaborator answers is an
  input of the run.
\<close>

subsection \<open>Text\<close>

text \<open>
  The colour functions of picocolors and chalk (\<^verbatim>\<open>c.cyan(s)\<close>, \<^verbatim>\<open>chalk.red(s)\<close>) are
  a parameter \<open>c\<close> of every action: \<open>c cyan s\<close> is the coloured text.
\<close>

datatype colour = cyan | green | blue | red | gray | yellow | magenta

type_synonym painter = "colour \<Rightarrow> string \<Rightarrow> string"

definition nl :: string where
  \<comment> \<open>the string \<^verbatim>\<open>'\n'\<close>\<close>
  "nl = [CHR 0x0A]"

definition check_mark :: string where
  \<comment> \<open>U+2714, as UTF-8 bytes\<close>
  "check_mark = [CHR 0xE2, CHR 0x9C, CHR 0x94]"

definition cross_mark :: string where
  \<comment> \<open>U+2718, as UTF-8 bytes\<close>
  "cross_mark = [CHR 0xE2, CHR 0x9C, CHR 0x98]"

definition party :: string where
  \<comment> \<open>U+1F389, as UTF-8 bytes\<close>
  "party = [CHR 0xF0, CHR 0x9F, CHR 0x8E, CHR 0x89]"

definition rocket :: string where
  \<comment> \<open>U+1F680, as UTF-8 bytes\<close>
  "rocket = [CHR 0xF0, CHR 0x9F, CHR 0x9A, CHR 0x80]"

definition bug :: string where
  \<comment> \<open>U+1F41B, as UTF-8 bytes\<close>
  "bug = [CHR 0xF0, CHR 0x9F, CHR 0x90, CHR 0x9B]"

text \<open>
  \<^verbatim>\<open>s.split('\n')\<close> and \<^verbatim>\<open>lines.join('\n')\<close>. Splitting the empty string gives one empty
  line; a separator at the end gives an empty last line.
\<close>

fun js_split :: "char \<Rightarrow> string \<Rightarrow> string list" where
  "js_split sep [] = [[]]"
| "js_split sep (ch # cs) =
     (if ch = sep then [] # js_split sep cs
      else (case js_split sep cs of
              [] \<Rightarrow> [[ch]]
            | l # ls \<Rightarrow> (ch # l) # ls))"

fun js_join :: "string \<Rightarrow> string list \<Rightarrow> string" where
  "js_join sep [] = []"
| "js_join sep [l] = l"
| "js_join sep (l # m # ls) = l @ sep @ js_join sep (m # ls)"

subsection \<open>Errors, answers and the calls an action makes\<close>

text \<open>
  A JavaScript error has a name and a message. \<^verbatim>\<open>err.message\<close> reads the message;
  printing the error itself (\<^verbatim>\<open>chalk.red(err)\<close>) converts it with
  \<^verbatim>\<open>Error.prototype.toString\<close>.
\<close>

record js_error =
  err_name :: string
  message :: string

definition error_toString :: "js_error \<Rightarrow> string" where
  "error_toString e =
     (if err_name e = [] then message e
      else if message e = [] then err_name e
      else err_name e @ '': '' @ message e)"

text \<open>
  A prompt of \<^verbatim>\<open>@clack/prompts\<close> returns the value the user gave, or its cancel symbol
  when the user cancelled.
\<close>

datatype 'a answer = Value 'a | CancelSymbol

text \<open>
  JavaScript truthiness of what \<^verbatim>\<open>p.confirm\<close> returns: a symbol is truthy.
\<close>

fun truthy :: "bool answer \<Rightarrow> bool" where
  "truthy (Value b) = b"
| "truthy CancelSymbol = True"

datatype template = go | git

datatype option_value = Num int | Str string | Null | Undefined

type_synonym clone_options = "(string \<times> option_value) list"

datatype spinner = spinnerClone | spinnerInit | spinnerCheck

datatype event =
    TimerStart
  | TimerStop int
  | PromptText string
  | PromptError string
  | PromptSelect string
  | PromptConfirm string
  | Cancel string
  | Intro string
  | Outro string
  | LogStep string
  | LogInfo string
  | LogSuccess string
  | LogWarn string
  | LogError string
  | ConsoleLog string
  | SpinnerStart spinner string
  | SpinnerMessage spinner string
  | SpinnerStop spinner string int
  | SpinnerFail spinner
  | SpinnerSucceed spinner
  | GitClean
  | GitClone string string clone_options
  | GitCwd string
  | GitRemoveRemote string
  | GitRaw "string list"
  | GitAdd string
  | GitCommit string
  | Which string
  | ShellCd string
  | ShellExec string
  | GetLatestRelease string string

text \<open>
  How a run ends: \<open>Exited n\<close> is a call of \<^verbatim>\<open>process.exit(n)\<close>; \<open>Returned\<close> is the end
  of the action's last callback with no call of \<^verbatim>\<open>process.exit\<close>; \<open>Unhandled e\<close> is a
  promise rejected with \<open>e\<close> that the action gives no handler; \<open>Waiting\<close> is a prompt
  that has not been answered. A run is followed no further than an unhandled rejection:
  whether the process then stops, and with which status, depends on the listeners the
  libraries have installed, and \<open>Unhandled e\<close> says nothing about it.
\<close>

datatype outcome = Exited int | Returned | Unhandled js_error | Waiting

type_synonym run = "event list \<times> outcome"

definition emit :: "event list \<Rightarrow> run \<Rightarrow> run" where
  "emit es r = (es @ fst r, snd r)"

subsection \<open>The elapsed-time reporter\<close>

text \<open>
  The timer of \<^verbatim>\<open>lib/utils\<close> is declared (\<^verbatim>\<open>Timer\<close>, with the fields \<^verbatim>\<open>__start\<close> and
  \<^verbatim>\<open>__end\<close>); the bodies of \<^verbatim>\<open>start\<close> and \<^verbatim>\<open>stop\<close> are missing. The clock readings are
  inputs.
\<close>

record timer =
  tm_start :: int
  tm_end :: int

definition timer_start :: "int \<Rightarrow> timer \<Rightarrow> timer" where
  \<comment> \<open>Modelled from the spec: the body of \<^verbatim>\<open>timer.start\<close> is missing;
      "start() records a timestamp".\<close>
  "timer_start now tm = tm\<lparr>tm_start := now\<rparr>"

definition timer_stop :: "int \<Rightarrow> timer \<Rightarrow> timer \<times> int" where
  \<comment> \<open>Modelled from the spec: the body of \<^verbatim>\<open>timer.stop\<close> is missing;
      "stop() returns elapsed time".\<close>
  "timer_stop now tm = (tm\<lparr>tm_end := now\<rparr>, now - tm_start tm)"

record clock =
  t_start :: int
  t_stop :: int

definition done_in :: "(int \<Rightarrow> string) \<Rightarrow> int \<Rightarrow> string" where
  \<comment> \<open>\<^verbatim>\<open>`Done in ${timer.stop() / 1000}s`\<close>, given the value \<open>ms\<close> that \<^verbatim>\<open>timer.stop()\<close>
      returned; \<open>secs ms\<close> is the text JavaScript gives for \<^verbatim>\<open>ms / 1000\<close>.\<close>
  "done_in secs ms = ''Done in '' @ secs ms @ ''s''"

definition stop_and_report :: "(int \<Rightarrow> string) \<Rightarrow> int \<Rightarrow> timer \<Rightarrow> event list" where
  \<comment> \<open>\<^verbatim>\<open>p.outro(`Done in ${timer.stop() / 1000}s`)\<close>\<close>
  "stop_and_report secs now tm =
     (let ms = snd (timer_stop now tm) in [TimerStop ms, Outro (done_in secs ms)])"

subsection \<open>The create action of \<^verbatim>\<open>src/bin/actions.ts\<close>\<close>

text \<open>
  \<^verbatim>\<open>git.removeRemote\<close> and \<^verbatim>\<open>git.raw\<close> are called one after the other on the same
  simple-git instance, neither waiting for the other, so their callbacks race. The
  callback of \<^verbatim>\<open>git.removeRemote\<close> runs at one of these moments: before the callback of
  \<^verbatim>\<open>git.raw\<close>; after it, while \<^verbatim>\<open>git.add\<close> is awaited; while \<^verbatim>\<open>git.commit\<close> is awaited;
  after the commit, once the code that follows it has run as far as it goes without
  waiting; or later than all of that. It does not run when the run has ended before its
  moment.
\<close>

datatype turn = BeforeRaw | WhileAdd | WhileCommit | AfterCommit | Late

text \<open>
  What simple-git reports for each call: \<open>None\<close> for success, \<open>Some e\<close> for the error
  \<open>e\<close> given to the callback (or thrown by the \<^verbatim>\<open>await\<close>); and the moment of the
  \<^verbatim>\<open>git.removeRemote\<close> callback.
\<close>

record git_outcomes =
  clone_err :: "js_error option"
  removeRemote_err :: "js_error option"
  raw_err :: "js_error option"
  add_err :: "js_error option"
  commit_err :: "js_error option"
  removeRemote_turn :: turn

definition when_turn :: "turn \<Rightarrow> git_outcomes \<Rightarrow> 'a list \<Rightarrow> 'a list" where
  "when_turn k g es = (if removeRemote_turn g = k then es else [])"

record create_inputs = clock +
  names :: "string answer list"
  template_answer :: "template answer"
  outcomes :: git_outcomes
  run_answer :: "bool answer"
  hugo_found :: bool

definition validate :: "string \<Rightarrow> string option" where
  \<comment> \<open>the \<^verbatim>\<open>validate\<close> of the name prompt: a message, or \<^verbatim>\<open>undefined\<close>\<close>
  "validate val = (if val = [] then Some ''project name is required!'' else None)"

text \<open>
  \<^verbatim>\<open>p.text\<close> with a \<^verbatim>\<open>validate\<close>: every submitted value is validated; a rejected one
  shows the message and leaves the prompt open. The list holds what the user submits,
  in order (the field starts filled with \<^verbatim>\<open>process.argv[3] || ''\<close>).
\<close>

fun text_prompt :: "string answer list \<Rightarrow> event list \<times> string answer option" where
  "text_prompt [] = ([], None)"
| "text_prompt (CancelSymbol # rest) = ([], Some CancelSymbol)"
| "text_prompt (Value val # rest) =
     (case validate val of
        Some msg \<Rightarrow> (PromptError msg # fst (text_prompt rest), snd (text_prompt rest))
      | None \<Rightarrow> ([], Some (Value val)))"

definition repositories :: "template \<Rightarrow> string" where
  "repositories t =
     (case t of
        go \<Rightarrow> ''https://github.com/hugo-fixit/hugo-fixit-starter.git''
      | git \<Rightarrow> ''https://github.com/hugo-fixit/hugo-fixit-starter1.git'')"

definition cloneOptions :: "template \<Rightarrow> clone_options" where
  "cloneOptions t =
     [(''--depth'', Num 1), (''--branch'', Str ''main''), (''--single-branch'', Null)]
     @ (if t = git
        then [(''--recurse-submodules'', Undefined), (''--shallow-submodules'', Undefined)]
        else [])"

definition server_command :: "string \<Rightarrow> string" where
  \<comment> \<open>\<^verbatim>\<open>`cd ${answers.name} && hugo server -O`\<close>\<close>
  "server_command name = ''cd '' @ name @ '' && hugo server -O''"

text \<open>Step 3, from \<^verbatim>\<open>p.log.step('Starting the development server...')\<close> on.\<close>

definition start_server :: "painter \<Rightarrow> (int \<Rightarrow> string) \<Rightarrow> create_inputs \<Rightarrow> timer \<Rightarrow> string \<Rightarrow> run" where
  "start_server c secs i tm name =
     emit [LogStep ''Starting the development server...'', Which ''hugo'']
       (if \<not> hugo_found i then
          ([LogError (c red ''Hugo is not installed. You need to install Hugo to start this project!''),
            LogInfo (''After installing Hugo, run '' @ c blue (server_command name)
                     @ '' to start the development server.'')]
           @ stop_and_report secs (t_stop i) tm,
           Exited 1)
        else
          ([LogInfo (''> '' @ c blue (server_command name))]
           @ stop_and_report secs (t_stop i) tm
           @ [ShellCd name, ShellExec ''hugo server -O''],
           Returned))"

text \<open>The callback given to \<^verbatim>\<open>git.removeRemote\<close>.\<close>

definition removeRemote_callback :: "painter \<Rightarrow> git_outcomes \<Rightarrow> event list" where
  "removeRemote_callback c g =
     (case removeRemote_err g of
        Some e \<Rightarrow> [SpinnerStop spinnerInit (message e) (- 1)]
      | None \<Rightarrow> [SpinnerMessage spinnerInit (c green check_mark @ '' removed remote origin.'')])"

text \<open>
  The body of the \<^verbatim>\<open>then\<close> after \<^verbatim>\<open>git.raw\<close>: the baseline commit and the post-init
  choice. A failed \<^verbatim>\<open>await\<close> throws out of the \<^verbatim>\<open>async\<close> body, whose promise nobody
  handles. The \<^verbatim>\<open>git.removeRemote\<close> callback, when it has not run yet, can run during
  each \<^verbatim>\<open>await\<close>; once the post-init prompt is answered, the body runs without waiting
  to \<^verbatim>\<open>process.exit\<close> or to the launch of the server.
\<close>

definition first_commit :: "painter \<Rightarrow> (int \<Rightarrow> string) \<Rightarrow> create_inputs \<Rightarrow> timer \<Rightarrow> string \<Rightarrow> run" where
  "first_commit c secs i tm name =
     emit ([GitAdd ''./*'']
           @ when_turn WhileAdd (outcomes i) (removeRemote_callback c (outcomes i)))
       (case add_err (outcomes i) of
          Some e \<Rightarrow> ([], Unhandled e)
        | None \<Rightarrow>
            emit ([GitCommit ''first commit'']
                  @ when_turn WhileCommit (outcomes i) (removeRemote_callback c (outcomes i)))
              (case commit_err (outcomes i) of
                 Some e \<Rightarrow> ([], Unhandled e)
               | None \<Rightarrow>
                   emit ([SpinnerStop spinnerInit
                            (c green check_mark @ '' FixIt project '' @ name @ '' initialized!'') 0,
                          LogSuccess (party @ '' Congratulations! You have created a new FixIt project.''),
                          PromptConfirm (rocket @ '' Do you want to start the development server now?'')]
                         @ when_turn AfterCommit (outcomes i)
                             (removeRemote_callback c (outcomes i)))
                     (if \<not> truthy (run_answer i) then
                        ([LogInfo (''Run '' @ c blue (server_command name)
                                   @ '' to start the development server.'')]
                         @ stop_and_report secs (t_stop i) tm,
                         Exited 0)
                      else start_server c secs i tm name)))"

text \<open>
  Step 2, the body of the clone callback after a successful clone. \<^verbatim>\<open>git.removeRemote\<close>
  and \<^verbatim>\<open>git.raw\<close> are both called before either completes; their callbacks run later,
  in either order, and the \<^verbatim>\<open>then\<close> of \<^verbatim>\<open>git.raw\<close> runs only when it succeeded. When
  \<^verbatim>\<open>git.raw\<close> failed, its callback stops the spinner and the promise is rejected with no
  handler: the run ends there, and a \<^verbatim>\<open>git.removeRemote\<close> callback that has not run yet
  does not run.
\<close>

definition initialize :: "painter \<Rightarrow> (int \<Rightarrow> string) \<Rightarrow> create_inputs \<Rightarrow> timer \<Rightarrow> string \<Rightarrow> run" where
  "initialize c secs i tm name =
     emit ([SpinnerStart spinnerInit (''Initializing FixIt project '' @ name @ ''.''),
            GitCwd name,
            SpinnerMessage spinnerInit ''Removing remote origin.'',
            GitRemoveRemote ''origin'',
            SpinnerMessage spinnerInit ''Removing history commits.'',
            GitRaw [''update-ref'', ''-d'', ''HEAD'']]
           @ when_turn BeforeRaw (outcomes i) (removeRemote_callback c (outcomes i)))
       (case raw_err (outcomes i) of
          Some e \<Rightarrow> ([SpinnerStop spinnerInit (message e) (- 1)], Unhandled e)
        | None \<Rightarrow>
            emit [SpinnerMessage spinnerInit (c green check_mark @ '' removed history commits.'')]
              (first_commit c secs i tm name))"

text \<open>
  Step 1, from \<^verbatim>\<open>p.log.step\<close> to the clone callback. The result of \<^verbatim>\<open>git.clean\<close> is not
  looked at. The progress callback only rewrites the message of the clone spinner (with a
  random number of dots) and is left out of the run.
\<close>

definition download :: "painter \<Rightarrow> (int \<Rightarrow> string) \<Rightarrow> create_inputs \<Rightarrow> timer \<Rightarrow> string \<Rightarrow> template \<Rightarrow> run" where
  "download c secs i tm name t =
     emit [LogStep (''Initializing FixIt project '' @ name @ '', please wait a moment...''),
           SpinnerStart spinnerClone
             (''Template downloading from '' @ c cyan (repositories t) @ ''.''),
           GitClean,
           GitClone (repositories t) name (cloneOptions t)]
       (case clone_err (outcomes i) of
          Some e \<Rightarrow> ([SpinnerStop spinnerClone (message e) (- 1)], Returned)
        | None \<Rightarrow>
            emit [SpinnerStop spinnerClone
                    (c green check_mark @ '' Template downloaded from '' @ c cyan (repositories t)) 0]
              (initialize c secs i tm name))"

definition onCancel :: run where
  "onCancel = ([Cancel ''Operation cancelled.''], Exited 0)"

definition createAction :: "painter \<Rightarrow> (int \<Rightarrow> string) \<Rightarrow> create_inputs \<Rightarrow> run" where
  "createAction c secs i =
     (let tm = timer_start (t_start i) \<lparr>tm_start = 0, tm_end = 0\<rparr> in
      emit ([TimerStart, PromptText ''Please input project name:''] @ fst (text_prompt (names i)))
        (case snd (text_prompt (names i)) of
           None \<Rightarrow> ([], Waiting)
         | Some CancelSymbol \<Rightarrow> onCancel
         | Some (Value name) \<Rightarrow>
             emit [PromptSelect ''Please choose a template:'']
               (case template_answer i of
                  CancelSymbol \<Rightarrow> onCancel
                | Value t \<Rightarrow> download c secs i tm name t)))"

subsection \<open>The check action of \<^verbatim>\<open>src/bin/actions.ts\<close>\<close>

record release_info =
  version :: string
  changelog :: string
  homeUrl :: string

text \<open>
  \<^verbatim>\<open>getLatestRelease\<close> is a collaborator: its promise is fulfilled with a release (\<open>Inr\<close>)
  or rejected with an error (\<open>Inl\<close>).
\<close>

record check_inputs = clock +
  fetched :: "js_error + release_info"

definition token_hint :: "painter \<Rightarrow> string" where
  "token_hint c =
     ''You can set GITHUB_TOKEN env to avoid GitHub API rate limit.'' @ nl
     @ ''Run command '' @ c blue ''fixit help check'' @ '' for more details.'' @ nl"

definition release_notes :: "painter \<Rightarrow> release_info \<Rightarrow> string" where
  "release_notes c r =
     ''Release Notes: '' @ c cyan (homeUrl r) @ nl @ nl
     @ js_join nl (map (\<lambda>line. c gray line) (js_split (CHR 0x0A) (changelog r)))"

definition module_command :: "string \<Rightarrow> string" where
  \<comment> \<open>\<^verbatim>\<open>`hugo mod get -u github.com/hugo-fixit/FixIt@${version}`\<close>\<close>
  "module_command v = ''hugo mod get -u github.com/hugo-fixit/FixIt@'' @ v"

definition upgrade_commands :: "painter \<Rightarrow> string \<Rightarrow> string" where
  "upgrade_commands c v =
     ''You can use commands below to update FixIt theme to the latest version.'' @ nl
     @ c gray ''Hugo module:'' @ nl
     @ ''  '' @ c blue (module_command v) @ nl
     @ ''  '' @ c blue ''hugo mod tidy'' @ nl
     @ c gray ''Git submodule:'' @ nl
     @ ''  '' @ c blue ''git submodule update --remote --merge themes/FixIt''"

definition checkAction :: "painter \<Rightarrow> (int \<Rightarrow> string) \<Rightarrow> check_inputs \<Rightarrow> run" where
  "checkAction c secs i =
     (let tm = timer_start (t_start i) \<lparr>tm_start = 0, tm_end = 0\<rparr> in
      emit [TimerStart,
            SpinnerStart spinnerCheck ''Checking the latest version of FixIt theme.'',
            GetLatestRelease ''hugo-fixit'' ''FixIt'']
        (case fetched i of
           Inr r \<Rightarrow>
             ([LogInfo (release_notes c r),
               SpinnerStop spinnerCheck
                 (c green check_mark @ '' The latest version of FixIt theme is ''
                  @ c blue (version r) @ ''.'') 0,
               LogStep (upgrade_commands c (version r))]
              @ stop_and_report secs (t_stop i) tm,
              Returned)
         | Inl error \<Rightarrow>
             ([LogError (c red (message error)),
               SpinnerStop spinnerCheck
                 (c red cross_mark @ '' failed to check the latest version of FixIt theme.'') (- 1),
               LogStep (token_hint c)],
              Exited 1)))"

subsection \<open>The help action of \<^verbatim>\<open>src/bin/actions.ts\<close>\<close>

definition token_url :: string where
  "token_url = ''https://docs.github.com/en/github/authenticating-to-github/keeping-your-account-and-data-secure/creating-a-personal-access-token''"

definition helpAction :: "painter \<Rightarrow> (int \<Rightarrow> string) \<Rightarrow> clock \<Rightarrow> string \<Rightarrow> run" where
  "helpAction c secs i command =
     (let tm = timer_start (t_start i) \<lparr>tm_start = 0, tm_end = 0\<rparr> in
      (TimerStart #
       (if command = ''create'' then
          [Intro ''Create a new FixIt project from a template based on Git submodule or Hugo module.'',
           LogInfo (''Usage: '' @ c blue ''fixit create <project-name>'')]
        else if command = ''check'' then
          [Intro ''Check the latest version of FixIt theme.'',
           LogInfo (''Usage: '' @ c blue ''[GITHUB_TOKEN=xxx] fixit check''),
           LogStep (c gray (''You can set GITHUB_TOKEN env to avoid GitHub API rate limit.'' @ nl)
                    @ c gray ''Head to ''
                    @ c cyan (token_url @ nl)
                    @ c gray ''for guidance on how to create a personal access token.'')]
        else if command = ''help'' then
          [Intro ''Display help for a specific command.'',
           LogInfo (''Usage: '' @ c blue ''fixit help <command>'')]
        else
          [Intro (''Unknown help topic '' @ c red (command) @ ''.''),
           LogWarn (''Refer to '' @ c blue ''fixit --help'' @ '' for supported commands.'')])
       @ stop_and_report secs (t_stop i) tm,
       Returned))"

subsection \<open>The actions of \<^verbatim>\<open>src/lib/actions.ts\<close>\<close>

text \<open>
  The second implementation asks with inquirer, reports with ora and \<^verbatim>\<open>console.log\<close>, and
  colours with chalk. inquirer has no cancel symbol: its input prompt asks again until
  \<^verbatim>\<open>validate\<close> returns \<^verbatim>\<open>true\<close>, and its list prompt returns the chosen value.
\<close>

record lib_create_inputs =
  lib_names :: "string list"
  lib_template :: template
  lib_outcomes :: git_outcomes

definition lib_validate :: "string \<Rightarrow> string option" where
  \<comment> \<open>a message, or \<open>None\<close> for \<^verbatim>\<open>true\<close>\<close>
  "lib_validate val = (if val = [] then Some ''project name is required'' else None)"

fun input_prompt :: "string list \<Rightarrow> event list \<times> string option" where
  "input_prompt [] = ([], None)"
| "input_prompt (val # rest) =
     (case lib_validate val of
        Some msg \<Rightarrow> (PromptError msg # fst (input_prompt rest), snd (input_prompt rest))
      | None \<Rightarrow> ([], Some val))"

definition lib_removeRemote_callback :: "painter \<Rightarrow> git_outcomes \<Rightarrow> event list" where
  "lib_removeRemote_callback chalk g =
     (case removeRemote_err g of
        Some e \<Rightarrow> [SpinnerFail spinnerInit, ConsoleLog (chalk red (error_toString e))]
      | None \<Rightarrow> [SpinnerMessage spinnerInit
                   (chalk green ''[Success]'' @ '' removed remote origin.'')])"

text \<open>
  Here the body of the \<^verbatim>\<open>then\<close> waits for nothing after the commit, so a
  \<^verbatim>\<open>git.removeRemote\<close> callback that has not run by then runs after the last
  \<^verbatim>\<open>console.log\<close>.
\<close>

definition lib_first_commit :: "painter \<Rightarrow> lib_create_inputs \<Rightarrow> string \<Rightarrow> run" where
  "lib_first_commit chalk i name =
     emit ([GitAdd ''./*'']
           @ when_turn WhileAdd (lib_outcomes i) (lib_removeRemote_callback chalk (lib_outcomes i)))
       (case add_err (lib_outcomes i) of
          Some e \<Rightarrow> ([], Unhandled e)
        | None \<Rightarrow>
            emit ([GitCommit ''first commit'']
                  @ when_turn WhileCommit (lib_outcomes i)
                      (lib_removeRemote_callback chalk (lib_outcomes i)))
              (case commit_err (lib_outcomes i) of
                 Some e \<Rightarrow> ([], Unhandled e)
               | None \<Rightarrow>
                   ([SpinnerMessage spinnerInit
                       (chalk green ''[Success]'' @ '' initialized FixIt project '' @ name @ ''.''),
                     SpinnerSucceed spinnerInit,
                     ConsoleLog (party @ '' Congratulations! You have created a new FixIt project.'' @ nl),
                     ConsoleLog (chalk blue (server_command name) @ nl @ nl
                                 @ ''Go! Enjoy it and Fix it! '' @ bug)]
                    @ when_turn AfterCommit (lib_outcomes i)
                        (lib_removeRemote_callback chalk (lib_outcomes i))
                    @ when_turn Late (lib_outcomes i)
                        (lib_removeRemote_callback chalk (lib_outcomes i)),
                    Returned)))"

definition lib_initialize :: "painter \<Rightarrow> lib_create_inputs \<Rightarrow> string \<Rightarrow> run" where
  "lib_initialize chalk i name =
     emit ([SpinnerStart spinnerInit (''Initializing FixIt project '' @ name),
            GitCwd name,
            SpinnerMessage spinnerInit ''Removing remote origin.'',
            GitRemoveRemote ''origin'',
            SpinnerMessage spinnerInit ''Removing history commits.'',
            GitRaw [''update-ref'', ''-d'', ''HEAD'']]
           @ when_turn BeforeRaw (lib_outcomes i)
               (lib_removeRemote_callback chalk (lib_outcomes i)))
       (case raw_err (lib_outcomes i) of
          Some e \<Rightarrow> ([SpinnerFail spinnerInit, ConsoleLog (chalk red (error_toString e))],
                     Unhandled e)
        | None \<Rightarrow>
            emit [SpinnerMessage spinnerInit
                    (chalk green ''[Success]'' @ '' removed history commits.'')]
              (lib_first_commit chalk i name))"

definition lib_download :: "painter \<Rightarrow> lib_create_inputs \<Rightarrow> string \<Rightarrow> template \<Rightarrow> run" where
  "lib_download chalk i name t =
     emit [ConsoleLog (''Initializing FixIt project '' @ name @ '', please wait a moment.''),
           SpinnerStart spinnerClone
             (''Downloading template from '' @ chalk cyan (repositories t) @ ''.''),
           GitClean,
           GitClone (repositories t) name (cloneOptions t)]
       (case clone_err (lib_outcomes i) of
          Some e \<Rightarrow> ([SpinnerFail spinnerClone, ConsoleLog (chalk red (error_toString e))],
                     Returned)
        | None \<Rightarrow>
            emit [SpinnerMessage spinnerClone
                    (chalk green ''[Success]'' @ '' downloaded template from ''
                     @ chalk cyan (repositories t) @ ''.''),
                  SpinnerSucceed spinnerClone]
              (lib_initialize chalk i name))"

definition lib_createAction :: "painter \<Rightarrow> lib_create_inputs \<Rightarrow> run" where
  "lib_createAction chalk i =
     emit (PromptText ''Please input project name:'' # fst (input_prompt (lib_names i)))
       (case snd (input_prompt (lib_names i)) of
          None \<Rightarrow> ([], Waiting)
        | Some name \<Rightarrow>
            emit [PromptSelect ''Please choose a template:'']
              (lib_download chalk i name (lib_template i)))"

definition lib_checkAction :: "painter \<Rightarrow> js_error + release_info \<Rightarrow> run" where
  "lib_checkAction chalk fetch =
     emit [SpinnerStart spinnerCheck ''Checking the latest version of FixIt theme.'',
           GetLatestRelease ''hugo-fixit'' ''FixIt'']
       (case fetch of
          Inr r \<Rightarrow>
            ([SpinnerMessage spinnerCheck
                (chalk green ''[Success]'' @ '' the latest version of FixIt theme is ''
                 @ chalk blue (version r) @ ''.''),
              SpinnerSucceed spinnerCheck,
              ConsoleLog (''Release Notes: '' @ chalk cyan (homeUrl r) @ nl @ nl
                          @ chalk magenta (changelog r) @ nl),
              ConsoleLog (chalk green ''Note:'' @ nl
                          @ ''You can use commands below to update FixIt theme to the latest version.''
                          @ nl),
              ConsoleLog (''Hugo module:'' @ nl @ ''  ''
                          @ chalk blue (module_command (version r) @ nl @ ''  hugo mod tidy'')),
              ConsoleLog (''Git submodule:'' @ nl @ ''  ''
                          @ chalk blue ''git submodule update --remote --merge themes/FixIt'' @ nl)],
             Returned)
        | Inl error \<Rightarrow>
            ([SpinnerMessage spinnerCheck
                (chalk red ''[Failed]'' @ '' failed to check the latest version of FixIt theme.''),
              SpinnerFail spinnerCheck,
              ConsoleLog (chalk red (error_toString error)),
              ConsoleLog (nl @ chalk green ''Note:'' @ nl
                          @ ''You can set GITHUB_TOKEN env to avoid GitHub API rate limit.'' @ nl
                          @ ''Run command '' @ chalk blue ''fixit help check''
                          @ '' for more details.'' @ nl)],
             Returned))"

definition lib_helpAction :: "painter \<Rightarrow> string \<Rightarrow> run" where
  "lib_helpAction chalk command =
     ((if command = ''create'' then
         [ConsoleLog ''Create a new FixIt project from a template based on Git submodule or Hugo module.'',
          ConsoleLog (''Usage: '' @ chalk blue ''fixit create <project-name>'')]
       else if command = ''check'' then
         [ConsoleLog ''Check the latest version of FixIt theme.'',
          ConsoleLog (''Usage: '' @ chalk blue ''[GITHUB_TOKEN=xxx] fixit check''),
          ConsoleLog (nl @ chalk green ''Note:'' @ nl
                      @ ''You can set GITHUB_TOKEN env to avoid GitHub API rate limit.''),
          ConsoleLog (''Head to '' @ chalk cyan token_url @ nl
                      @ ''for guidance on how to create a personal access token.'' @ nl)]
       else if command = ''help'' then
         [ConsoleLog ''Display help for a specific command.'',
          ConsoleLog (''Usage: '' @ chalk blue ''fixit help <command>'')]
       else
         [ConsoleLog (''Unknown help topic '' @ chalk red command @ ''.''),
          ConsoleLog (''Refer to '' @ chalk blue ''fixit --help'' @ '' for supported commands.'')]),
      Returned)"

subsection \<open>Reading a run\<close>

fun clone_calls :: "event list \<Rightarrow> (string \<times> string \<times> clone_options) list" where
  "clone_calls [] = []"
| "clone_calls (GitClone url name opts # es) = (url, name, opts) # clone_calls es"
| "clone_calls (e # es) = clone_calls es"

text \<open>The calls to simple-git.\<close>

fun is_git :: "event \<Rightarrow> bool" where
  "is_git GitClean = True"
| "is_git (GitClone url name opts) = True"
| "is_git (GitCwd dir) = True"
| "is_git (GitRemoveRemote r) = True"
| "is_git (GitRaw args) = True"
| "is_git (GitAdd files) = True"
| "is_git (GitCommit msg) = True"
| "is_git e = False"

text \<open>
  The steps after the clone: remote removal, history deletion, baseline commit and the
  post-init prompt.
\<close>

fun is_later_step :: "event \<Rightarrow> bool" where
  "is_later_step (GitRemoveRemote r) = True"
| "is_later_step (GitRaw args) = True"
| "is_later_step (GitAdd files) = True"
| "is_later_step (GitCommit msg) = True"
| "is_later_step (PromptConfirm msg) = True"
| "is_later_step e = False"

text \<open>The two steps that detach the clone from its history.\<close>

fun is_detach :: "event \<Rightarrow> bool" where
  "is_detach (GitRemoveRemote r) = True"
| "is_detach (GitRaw args) = True"
| "is_detach e = False"

text \<open>The calls to shelljs that change directory and start a subprocess.\<close>

fun is_shell :: "event \<Rightarrow> bool" where
  "is_shell (ShellCd dir) = True"
| "is_shell (ShellExec cmd) = True"
| "is_shell e = False"

text \<open>The effects outside the terminal: git calls, subprocess launches, the release fetch.\<close>

fun is_external :: "event \<Rightarrow> bool" where
  "is_external (ShellCd dir) = True"
| "is_external (ShellExec cmd) = True"
| "is_external (GetLatestRelease owner repo) = True"
| "is_external e = is_git e"

text \<open>What an action writes to the terminal.\<close>

fun is_output :: "event \<Rightarrow> bool" where
  "is_output (Cancel m) = True"
| "is_output (Intro m) = True"
| "is_output (Outro m) = True"
| "is_output (LogStep m) = True"
| "is_output (LogInfo m) = True"
| "is_output (LogSuccess m) = True"
| "is_output (LogWarn m) = True"
| "is_output (LogError m) = True"
| "is_output (ConsoleLog m) = True"
| "is_output (SpinnerStart sp m) = True"
| "is_output (SpinnerMessage sp m) = True"
| "is_output (SpinnerStop sp m code) = True"
| "is_output (SpinnerFail sp) = True"
| "is_output (SpinnerSucceed sp) = True"
| "is_output e = False"

fun is_timer_stop :: "event \<Rightarrow> bool" where
  "is_timer_stop (TimerStop ms) = True"
| "is_timer_stop e = False"

fun is_outro :: "event \<Rightarrow> bool" where
  "is_outro (Outro m) = True"
| "is_outro e = False"

fun is_fetch :: "event \<Rightarrow> bool" where
  "is_fetch (GetLatestRelease owner repo) = True"
| "is_fetch e = False"

text \<open>
  A create run reaches the post-init choice when both prompts were answered and the clone,
  the history deletion, the add and the commit succeeded.
\<close>

definition reaches_choice :: "create_inputs \<Rightarrow> bool" where
  "reaches_choice i =
     ((case snd (text_prompt (names i)) of Some (Value name) \<Rightarrow> True | _ \<Rightarrow> False)
      \<and> (case template_answer i of Value t \<Rightarrow> True | CancelSymbol \<Rightarrow> False)
      \<and> clone_err (outcomes i) = None \<and> raw_err (outcomes i) = None
      \<and> add_err (outcomes i) = None \<and> commit_err (outcomes i) = None)"


text \<open>
  The inputs of the first implementation that give the same answers and the same git
  outcomes as inputs \<open>j\<close> of the second, with clock \<open>k\<close>, answer \<open>r\<close> to the post-init
  prompt and \<open>h\<close> for the presence of hugo.
\<close>

definition bin_inputs :: "lib_create_inputs \<Rightarrow> clock \<Rightarrow> bool answer \<Rightarrow> bool \<Rightarrow> create_inputs" where
  "bin_inputs j k r h =
     \<lparr>t_start = t_start k, t_stop = t_stop k, names = map Value (lib_names j),
      template_answer = Value (lib_template j), outcomes = lib_outcomes j,
      run_answer = r, hugo_found = h\<rparr>"

subsection \<open>Sample collaborators\<close>

text \<open>
  Text without colour (what picocolors returns where colours are not supported), and the
  decimal text of a whole, non-negative number of milliseconds divided by 1000.
\<close>

definition no_colour :: painter where
  "no_colour k s = s"

fun digits :: "nat \<Rightarrow> string" where
  "digits n = (if n < 10 then [''0123456789'' ! n]
               else digits (n div 10) @ [''0123456789'' ! (n mod 10)])"

definition secs_text :: "int \<Rightarrow> string" where
  "secs_text ms =
     (let n = nat ms; w = n div 1000; f = n mod 1000;
          frac = rev (dropWhile (\<lambda>ch. ch = CHR ''0'')
                   (rev [''0123456789'' ! (f div 100), ''0123456789'' ! (f div 10 mod 10),
                         ''0123456789'' ! (f mod 10)]))
      in digits w @ (if frac = [] then [] else ''.'' @ frac))"

definition git_ok :: git_outcomes where
  "git_ok = \<lparr>clone_err = None, removeRemote_err = None, raw_err = None,
             add_err = None, commit_err = None, removeRemote_turn = BeforeRaw\<rparr>"

definition fatal :: js_error where
  "fatal = \<lparr>err_name = ''Error'', message = ''fatal: unable to access the remote''\<rparr>"


text \<open>
  A sample run of create: the name \<^verbatim>\<open>my-blog\<close>, the Hugo module template, every git call
  succeeding, the server declined. A sample release, the one of the specification.
\<close>

definition my_blog :: create_inputs where
  "my_blog = \<lparr>t_start = 0, t_stop = 1500, names = [Value ''my-blog''],
              template_answer = Value go, outcomes = git_ok,
              run_answer = Value False, hugo_found = False\<rparr>"

definition release_1_2_3 :: release_info where
  "release_1_2_3 = \<lparr>version = ''v1.2.3'', changelog = ''- fix A'' @ nl @ ''- fix B'',
                    homeUrl = ''https://example.com/r''\<rparr>"

section \<open>Properties\<close>

subsection \<open>Auxiliary facts\<close>

lemma fst_emit [simp]: "fst (emit es r) = es @ fst r"
  by (simp add: emit_def)

lemma snd_emit [simp]: "snd (emit es r) = snd r"
  by (simp add: emit_def)

lemma clone_calls_append [simp]: "clone_calls (xs @ ys) = clone_calls xs @ clone_calls ys"
  by (induction xs rule: clone_calls.induct) simp_all

lemma text_prompt_value:
  "snd (text_prompt xs) = Some (Value v) \<Longrightarrow> v \<noteq> [] \<and> Value v \<in> set xs"
proof (induction xs rule: text_prompt.induct)
  case 1
  then show ?case by simp
next
  case (2 rest)
  then show ?case by simp
next
  case (3 val rest)
  then show ?case by (cases "val = []") (auto simp: validate_def)
qed

lemma text_prompt_events:
  "filter P (fst (text_prompt xs)) =
   (if P (PromptError ''project name is required!'') then fst (text_prompt xs) else [])"
  by (induction xs rule: text_prompt.induct) (auto simp: validate_def)

lemma clone_calls_text_prompt: "clone_calls (fst (text_prompt xs)) = []"
  by (induction xs rule: text_prompt.induct) (simp_all split: option.splits)

lemma createAction_answered:
  assumes "snd (text_prompt (names i)) = Some (Value name)" and "template_answer i = Value t"
  shows "createAction c secs i =
         emit ([TimerStart, PromptText ''Please input project name:'']
               @ fst (text_prompt (names i))
               @ [PromptSelect ''Please choose a template:''])
           (download c secs i (timer_start (t_start i) \<lparr>tm_start = 0, tm_end = 0\<rparr>) name t)"
  using assms by (simp add: createAction_def emit_def Let_def)

lemma filter_stop_and_report:
  "filter P (stop_and_report secs now tm) =
   (if P (TimerStop (now - tm_start tm)) then [TimerStop (now - tm_start tm)] else [])
   @ (if P (Outro (done_in secs (now - tm_start tm)))
      then [Outro (done_in secs (now - tm_start tm))] else [])"
  by (simp add: stop_and_report_def timer_stop_def Let_def)

lemma clone_calls_stop_and_report [simp]: "clone_calls (stop_and_report secs now tm) = []"
  by (simp add: stop_and_report_def Let_def)

lemma js_join_split: "js_join [sep] (js_split sep s) = s"
proof (induction s)
  case Nil
  show ?case by simp
next
  case (Cons ch cs)
  show ?case
  proof (cases "js_split sep cs")
    case Nil
    with Cons show ?thesis by simp
  next
    case (Cons l ls)
    with Cons.IH show ?thesis by (cases ls) auto
  qed
qed

lemma filter_when_turn [simp]: "filter P (when_turn k g es) = when_turn k g (filter P es)"
  by (simp add: when_turn_def)

lemma clone_calls_when_turn [simp]: "clone_calls (when_turn k g es) = when_turn k g (clone_calls es)"
  by (simp add: when_turn_def)

lemma when_turn_Nil [simp]: "when_turn k g [] = []"
  by (simp add: when_turn_def)

lemma callback_is_output:
  "filter is_git (removeRemote_callback c g) = []"
  "filter is_shell (removeRemote_callback c g) = []"
  "filter is_later_step (removeRemote_callback c g) = []"
  "filter is_detach (removeRemote_callback c g) = []"
  "filter is_timer_stop (removeRemote_callback c g) = []"
  "filter is_outro (removeRemote_callback c g) = []"
  "clone_calls (removeRemote_callback c g) = []"
  by (simp_all add: removeRemote_callback_def split: option.splits)

lemma lib_callback_is_output:
  "filter is_git (lib_removeRemote_callback chalk g) = []"
  "filter is_shell (lib_removeRemote_callback chalk g) = []"
  by (simp_all add: lib_removeRemote_callback_def split: option.splits)

lemma clone_calls_initialize: "clone_calls (fst (initialize c secs i tm name)) = []"
  by (simp add: initialize_def first_commit_def start_server_def callback_is_output
      split: option.splits)

lemma input_prompt_events:
  "filter P (fst (input_prompt xs)) =
   (if P (PromptError ''project name is required'') then fst (input_prompt xs) else [])"
  by (induction xs) (auto simp: lib_validate_def)

lemma prompts_agree:
  "snd (text_prompt (map Value xs)) = map_option Value (snd (input_prompt xs))
   \<and> filter is_git (fst (text_prompt (map Value xs))) = []
   \<and> filter is_git (fst (input_prompt xs)) = []"
  by (induction xs) (simp_all add: validate_def lib_validate_def)

lemma git_calls_first_commit:
  "lib_outcomes j = outcomes i \<Longrightarrow>
   filter is_git (fst (first_commit c secs i tm name))
     = filter is_git (fst (lib_first_commit chalk j name))"
  by (simp add: first_commit_def lib_first_commit_def start_server_def filter_stop_and_report
      callback_is_output lib_callback_is_output split: option.splits)

lemma git_calls_download:
  "lib_outcomes j = outcomes i \<Longrightarrow>
   filter is_git (fst (download c secs i tm name t))
     = filter is_git (fst (lib_download chalk j name t))"
  by (simp add: download_def lib_download_def initialize_def lib_initialize_def
      callback_is_output lib_callback_is_output
      git_calls_first_commit [of j i c secs tm name chalk] split: option.splits)

lemma git_calls_create:
  "filter is_git (fst (createAction c secs (bin_inputs j k r h)))
     = filter is_git (fst (lib_createAction chalk j))"
proof (cases "snd (input_prompt (lib_names j))")
  case None
  then show ?thesis
    using prompts_agree [of "lib_names j"]
    by (simp add: createAction_def lib_createAction_def Let_def bin_inputs_def)
next
  case (Some name)
  have "lib_outcomes j = outcomes (bin_inputs j k r h)"
    by (simp add: bin_inputs_def)
  from git_calls_download [OF this] Some prompts_agree [of "lib_names j"] show ?thesis
    by (simp add: createAction_def lib_createAction_def Let_def) (simp add: bin_inputs_def)
qed

lemma lib_never_exits: "snd (lib_createAction chalk j) \<noteq> Exited n"
  by (simp add: lib_createAction_def lib_download_def lib_initialize_def lib_first_commit_def
      split: option.splits)

lemma lib_never_shell: "filter is_shell (fst (lib_createAction chalk j)) = []"
  by (simp add: lib_createAction_def lib_download_def lib_initialize_def lib_first_commit_def
      input_prompt_events lib_callback_is_output split: option.splits)

lemma outcomes_agree:
  "snd (createAction c secs (bin_inputs j k r h)) = Returned
   \<or> snd (createAction c secs (bin_inputs j k r h)) = Waiting \<Longrightarrow>
   \<not> reaches_choice (bin_inputs j k r h) \<Longrightarrow>
   snd (createAction c secs (bin_inputs j k r h)) = snd (lib_createAction chalk j)"
  using prompts_agree [of "lib_names j"]
  by (cases "snd (input_prompt (lib_names j))")
     (auto simp add: reaches_choice_def createAction_def lib_createAction_def Let_def
        bin_inputs_def download_def lib_download_def initialize_def lib_initialize_def
        first_commit_def lib_first_commit_def split: option.splits)

lemma create_without_stop:
  "\<not> reaches_choice i \<Longrightarrow>
   filter is_timer_stop (fst (createAction c secs i)) = []
   \<and> filter is_outro (fst (createAction c secs i)) = []"
  by (auto simp add: reaches_choice_def createAction_def Let_def download_def initialize_def
      first_commit_def onCancel_def text_prompt_events callback_is_output
      split: option.splits answer.splits)

lemma create_with_stop:
  "reaches_choice i \<Longrightarrow>
   filter is_timer_stop (fst (createAction c secs i)) = [TimerStop (t_stop i - t_start i)]
   \<and> filter is_outro (fst (createAction c secs i))
       = [Outro (done_in secs (t_stop i - t_start i))]
   \<and> last (filter is_output (fst (createAction c secs i)))
       = Outro (done_in secs (t_stop i - t_start i))"
  by (simp add: reaches_choice_def createAction_def Let_def download_def initialize_def
      first_commit_def start_server_def text_prompt_events filter_stop_and_report timer_start_def
      callback_is_output split: option.splits answer.splits)



lemmas create_unfold =
  createAction_def download_def initialize_def first_commit_def start_server_def
  stop_and_report_def timer_stop_def timer_start_def onCancel_def emit_def validate_def Let_def
  when_turn_def removeRemote_callback_def

subsection \<open>A failed clone\<close>

text \<open>
  C1, as the code has it. When the clone callback receives an error, the last thing the
  create action does is to stop the clone spinner with the message of that error; it calls
  none of remote removal, history deletion, add, commit or the post-init prompt; and the
  callback returns without a call of \<^verbatim>\<open>process.exit\<close>.
\<close>

theorem clone_failure:
  assumes "snd (text_prompt (names i)) = Some (Value name)"
    and "template_answer i = Value t"
    and "clone_err (outcomes i) = Some e"
  shows "last (fst (createAction c secs i)) = SpinnerStop spinnerClone (message e) (- 1)
         \<and> filter is_later_step (fst (createAction c secs i)) = []
         \<and> snd (createAction c secs i) = Returned"
  using assms by (simp add: createAction_answered download_def text_prompt_events)

theorem clone_failure_witness:
  "last (fst (createAction no_colour secs_text
       \<lparr>t_start = 0, t_stop = 1500, names = [Value ''my-blog''], template_answer = Value go,
        outcomes = git_ok\<lparr>clone_err := Some fatal\<rparr>, run_answer = Value False,
        hugo_found = False\<rparr>))
     = SpinnerStop spinnerClone ''fatal: unable to access the remote'' (- 1)
   \<and> filter is_later_step (fst (createAction no_colour secs_text
       \<lparr>t_start = 0, t_stop = 1500, names = [Value ''my-blog''], template_answer = Value go,
        outcomes = git_ok\<lparr>clone_err := Some fatal\<rparr>, run_answer = Value False,
        hugo_found = False\<rparr>)) = []
   \<and> snd (createAction no_colour secs_text
       \<lparr>t_start = 0, t_stop = 1500, names = [Value ''my-blog''], template_answer = Value go,
        outcomes = git_ok\<lparr>clone_err := Some fatal\<rparr>, run_answer = Value False,
        hugo_found = False\<rparr>) = Returned"
  using clone_failure [of "\<lparr>t_start = 0, t_stop = 1500, names = [Value ''my-blog''],
        template_answer = Value go, outcomes = git_ok\<lparr>clone_err := Some fatal\<rparr>,
        run_answer = Value False, hugo_found = False\<rparr>" "''my-blog''" go fatal no_colour secs_text]
  by (simp add: validate_def git_ok_def fatal_def)

text \<open>
  C1 as stated asks for exit status 1. With the name \<^verbatim>\<open>my-blog\<close>, the Hugo module template
  and a clone that fails, the run does not end in \<^verbatim>\<open>process.exit(1)\<close>.
\<close>

theorem clone_failure_exit_counterexample:
  "snd (createAction no_colour secs_text
       \<lparr>t_start = 0, t_stop = 1500, names = [Value ''my-blog''], template_answer = Value go,
        outcomes = git_ok\<lparr>clone_err := Some fatal\<rparr>, run_answer = Value False,
        hugo_found = False\<rparr>) \<noteq> Exited 1"
  by (simp add: createAction_def download_def validate_def git_ok_def fatal_def Let_def)

subsection \<open>Clone options\<close>

text \<open>
  C5. Once both prompts are answered, the create action makes one clone call: from the
  repository of the chosen template, into the given name, with the options of the chosen
  template, whatever the name. The options of the Git submodule template hold depth 1,
  branch main, single-branch and both submodule flags; the options of the Hugo module
  template hold depth 1, branch main, single-branch and neither submodule flag.
\<close>

theorem clone_options_by_template:
  assumes "snd (text_prompt (names i)) = Some (Value name)"
    and "template_answer i = Value t"
  shows "clone_calls (fst (createAction c secs i)) = [(repositories t, name, cloneOptions t)]
   \<and> map_of (cloneOptions git) ''--depth'' = Some (Num 1)
   \<and> map_of (cloneOptions git) ''--branch'' = Some (Str ''main'')
   \<and> ''--single-branch'' \<in> fst ` set (cloneOptions git)
   \<and> ''--recurse-submodules'' \<in> fst ` set (cloneOptions git)
   \<and> ''--shallow-submodules'' \<in> fst ` set (cloneOptions git)
   \<and> map_of (cloneOptions go) ''--depth'' = Some (Num 1)
   \<and> map_of (cloneOptions go) ''--branch'' = Some (Str ''main'')
   \<and> ''--single-branch'' \<in> fst ` set (cloneOptions go)
   \<and> ''--recurse-submodules'' \<notin> fst ` set (cloneOptions go)
   \<and> ''--shallow-submodules'' \<notin> fst ` set (cloneOptions go)"
proof -
  have "clone_calls (fst (createAction c secs i)) = [(repositories t, name, cloneOptions t)]"
    using assms
    by (simp add: createAction_answered clone_calls_text_prompt download_def
        clone_calls_initialize split: option.splits)
  then show ?thesis
    by (simp add: cloneOptions_def)
qed

theorem clone_options_by_template_witness:
  "clone_calls (fst (createAction no_colour secs_text my_blog))
     = [(''https://github.com/hugo-fixit/hugo-fixit-starter.git'', ''my-blog'',
         [(''--depth'', Num 1), (''--branch'', Str ''main''), (''--single-branch'', Null)])]
   \<and> clone_calls (fst (createAction no_colour secs_text
                         (my_blog\<lparr>names := [Value ''site''], template_answer := Value git\<rparr>)))
     = [(''https://github.com/hugo-fixit/hugo-fixit-starter1.git'', ''site'',
         [(''--depth'', Num 1), (''--branch'', Str ''main''), (''--single-branch'', Null),
          (''--recurse-submodules'', Undefined), (''--shallow-submodules'', Undefined)])]"
  using clone_options_by_template [of my_blog "''my-blog''" go no_colour secs_text]
    clone_options_by_template
      [of "my_blog\<lparr>names := [Value ''site''], template_answer := Value git\<rparr>" "''site''" git
          no_colour secs_text]
  by (simp add: my_blog_def validate_def repositories_def cloneOptions_def)

subsection \<open>Detaching the history\<close>




subsection \<open>The post-init choice\<close>

text \<open>
  C3. In a run of create that reaches the post-init choice: when the user declines, the
  manual command is printed, shelljs is not called and the process exits with status 0;
  when the user accepts and hugo is not found, an error and the manual instructions are
  printed, shelljs is not called and the process exits with status 1; when the user
  accepts and hugo is found, the only shelljs calls are the change into the project
  directory followed by the launch of \<^verbatim>\<open>hugo server -O\<close>, which is the last call of the run.
\<close>

theorem post_init_choice:
  assumes "snd (text_prompt (names i)) = Some (Value name)"
    and "template_answer i = Value t"
    and "clone_err (outcomes i) = None" and "raw_err (outcomes i) = None"
    and "add_err (outcomes i) = None" and "commit_err (outcomes i) = None"
  shows "(run_answer i = Value False \<longrightarrow>
            LogInfo (''Run '' @ c blue (server_command name) @ '' to start the development server.'')
              \<in> set (fst (createAction c secs i))
            \<and> filter is_shell (fst (createAction c secs i)) = []
            \<and> snd (createAction c secs i) = Exited 0)
       \<and> (run_answer i = Value True \<and> \<not> hugo_found i \<longrightarrow>
            LogError (c red ''Hugo is not installed. You need to install Hugo to start this project!'')
              \<in> set (fst (createAction c secs i))
            \<and> LogInfo (''After installing Hugo, run '' @ c blue (server_command name)
                        @ '' to start the development server.'')
              \<in> set (fst (createAction c secs i))
            \<and> filter is_shell (fst (createAction c secs i)) = []
            \<and> snd (createAction c secs i) = Exited 1)
       \<and> (run_answer i = Value True \<and> hugo_found i \<longrightarrow>
            filter is_shell (fst (createAction c secs i))
              = [ShellCd name, ShellExec ''hugo server -O'']
            \<and> last (fst (createAction c secs i)) = ShellExec ''hugo server -O''
            \<and> snd (createAction c secs i) = Returned)"
  using assms
  by (simp add: createAction_answered download_def initialize_def first_commit_def
      start_server_def text_prompt_events filter_stop_and_report callback_is_output
      split: option.splits)

theorem post_init_choice_witness:
  "LogInfo ''Run cd my-blog && hugo server -O to start the development server.''
     \<in> set (fst (createAction no_colour secs_text my_blog))
   \<and> filter is_shell (fst (createAction no_colour secs_text my_blog)) = []
   \<and> snd (createAction no_colour secs_text my_blog) = Exited 0
   \<and> LogError ''Hugo is not installed. You need to install Hugo to start this project!''
       \<in> set (fst (createAction no_colour secs_text (my_blog\<lparr>run_answer := Value True\<rparr>)))
   \<and> filter is_shell
         (fst (createAction no_colour secs_text (my_blog\<lparr>run_answer := Value True\<rparr>))) = []
   \<and> snd (createAction no_colour secs_text (my_blog\<lparr>run_answer := Value True\<rparr>)) = Exited 1
   \<and> filter is_shell
         (fst (createAction no_colour secs_text
                 (my_blog\<lparr>run_answer := Value True, hugo_found := True\<rparr>)))
       = [ShellCd ''my-blog'', ShellExec ''hugo server -O'']
   \<and> snd (createAction no_colour secs_text
              (my_blog\<lparr>run_answer := Value True, hugo_found := True\<rparr>)) = Returned"
  using post_init_choice [of my_blog "''my-blog''" go no_colour secs_text]
    post_init_choice [of "my_blog\<lparr>run_answer := Value True\<rparr>" "''my-blog''" go
                         no_colour secs_text]
    post_init_choice [of "my_blog\<lparr>run_answer := Value True, hugo_found := True\<rparr>"
                         "''my-blog''" go no_colour secs_text]
  by (simp add: my_blog_def validate_def git_ok_def no_colour_def server_command_def)

text \<open>
  C10. When the post-init prompt returns its cancel symbol, a run of create that reaches
  the choice is the run in which the user accepted: it does not exit with status 0, it
  looks for hugo, and when hugo is found its last call launches the server.
\<close>

theorem cancelled_confirm_is_accepted:
  assumes "snd (text_prompt (names i)) = Some (Value name)"
    and "template_answer i = Value t"
    and "clone_err (outcomes i) = None" and "raw_err (outcomes i) = None"
    and "add_err (outcomes i) = None" and "commit_err (outcomes i) = None"
    and "run_answer i = CancelSymbol"
  shows "createAction c secs i = createAction c secs (i\<lparr>run_answer := Value True\<rparr>)
       \<and> snd (createAction c secs i) \<noteq> Exited 0
       \<and> Which ''hugo'' \<in> set (fst (createAction c secs i))
       \<and> (hugo_found i \<longrightarrow> last (fst (createAction c secs i)) = ShellExec ''hugo server -O'')"
  using assms
  by (simp add: createAction_answered download_def initialize_def first_commit_def
      start_server_def text_prompt_events filter_stop_and_report callback_is_output
      split: option.splits)

theorem cancelled_confirm_is_accepted_witness:
  "createAction no_colour secs_text (my_blog\<lparr>run_answer := CancelSymbol, hugo_found := True\<rparr>)
     = createAction no_colour secs_text (my_blog\<lparr>run_answer := Value True, hugo_found := True\<rparr>)
   \<and> snd (createAction no_colour secs_text
              (my_blog\<lparr>run_answer := CancelSymbol, hugo_found := True\<rparr>)) \<noteq> Exited 0
   \<and> Which ''hugo''
       \<in> set (fst (createAction no_colour secs_text
                      (my_blog\<lparr>run_answer := CancelSymbol, hugo_found := True\<rparr>)))
   \<and> last (fst (createAction no_colour secs_text
                    (my_blog\<lparr>run_answer := CancelSymbol, hugo_found := True\<rparr>)))
       = ShellExec ''hugo server -O''"
  using cancelled_confirm_is_accepted
    [of "my_blog\<lparr>run_answer := CancelSymbol, hugo_found := True\<rparr>" "''my-blog''" go
        no_colour secs_text]
  by (simp add: my_blog_def git_ok_def create_unfold)

subsection \<open>Validation of the project name\<close>

text \<open>
  C4, as the code has it. The validation rejects the empty name and accepts every other
  name; every clone call of a run of create is for a non-empty name that the user
  submitted, so no clone is attempted before a non-empty name is supplied.
\<close>

theorem empty_name_never_cloned:
  "validate [] = Some ''project name is required!''
   \<and> (\<forall>val. val \<noteq> [] \<longrightarrow> validate val = None)
   \<and> (\<forall>url name opts. (url, name, opts) \<in> set (clone_calls (fst (createAction c secs i)))
        \<longrightarrow> name \<noteq> [] \<and> Value name \<in> set (names i))"
proof -
  have "name \<noteq> [] \<and> Value name \<in> set (names i)"
    if "(url, name, opts) \<in> set (clone_calls (fst (createAction c secs i)))" for url name opts
  proof (cases "snd (text_prompt (names i))")
    case None
    with that show ?thesis
      by (simp add: createAction_def Let_def clone_calls_text_prompt)
  next
    case (Some a)
    show ?thesis
    proof (cases a)
      case CancelSymbol
      with Some that show ?thesis
        by (simp add: createAction_def Let_def clone_calls_text_prompt onCancel_def)
    next
      case (Value nm)
      show ?thesis
      proof (cases "template_answer i")
        case CancelSymbol
        with Some Value that show ?thesis
          by (simp add: createAction_def Let_def clone_calls_text_prompt onCancel_def)
      next
        case (Value t)
        with Some \<open>a = Value nm\<close> that have "name = nm"
          by (simp add: createAction_answered clone_calls_text_prompt download_def
              clone_calls_initialize split: option.splits)
        with Some \<open>a = Value nm\<close> show ?thesis
          using text_prompt_value by simp
      qed
    qed
  qed
  then show ?thesis by (simp add: validate_def)
qed

theorem empty_name_never_cloned_witness:
  "validate [] = Some ''project name is required!''
   \<and> validate ''my-blog'' = None
   \<and> clone_calls (fst (createAction no_colour secs_text
                         (my_blog\<lparr>names := [Value [], Value [], CancelSymbol]\<rparr>))) = []
   \<and> (repositories go, ''my-blog'', cloneOptions go)
       \<in> set (clone_calls (fst (createAction no_colour secs_text
                                   (my_blog\<lparr>names := [Value [], Value ''my-blog'']\<rparr>))))
   \<and> Value ''my-blog'' \<in> set (names (my_blog\<lparr>names := [Value [], Value ''my-blog'']\<rparr>))"
  using empty_name_never_cloned
    [of no_colour secs_text "my_blog\<lparr>names := [Value [], Value ''my-blog'']\<rparr>"]
  by (simp add: my_blog_def validate_def git_ok_def createAction_def Let_def download_def
      clone_calls_initialize onCancel_def)

text \<open>
  C4 as stated also rejects a name of whitespace only. The name of one space passes the
  validation, and the run clones into a directory of that name.
\<close>

theorem whitespace_name_counterexample:
  "validate '' '' = None
   \<and> clone_calls (fst (createAction no_colour secs_text
         \<lparr>t_start = 0, t_stop = 1500, names = [Value '' ''], template_answer = Value go,
          outcomes = git_ok, run_answer = Value False, hugo_found = False\<rparr>))
     = [(''https://github.com/hugo-fixit/hugo-fixit-starter.git'', '' '',
         [(''--depth'', Num 1), (''--branch'', Str ''main''), (''--single-branch'', Null)])]"
  by (simp add: validate_def createAction_def Let_def download_def clone_calls_initialize
      git_ok_def repositories_def cloneOptions_def)

subsection \<open>The release check\<close>

text \<open>
  C6. After a successful fetch the check action writes, in this order, the release notes
  (the homepage in cyan, then every line of the changelog in gray, the lines joined in
  their order: joining the uncoloured lines gives the changelog back), the version in
  blue, the two upgrade command blocks (the Hugo module command ends in the fetched
  version, the Git submodule command is a fixed string) and the elapsed time.
\<close>

theorem check_success:
  assumes "fetched i = Inr r"
  shows "fst (checkAction c secs i) =
           [TimerStart,
            SpinnerStart spinnerCheck ''Checking the latest version of FixIt theme.'',
            GetLatestRelease ''hugo-fixit'' ''FixIt'',
            LogInfo (''Release Notes: '' @ c cyan (homeUrl r) @ nl @ nl
                     @ js_join nl (map (c gray) (js_split (CHR 0x0A) (changelog r)))),
            SpinnerStop spinnerCheck
              (c green check_mark @ '' The latest version of FixIt theme is ''
               @ c blue (version r) @ ''.'') 0,
            LogStep (''You can use commands below to update FixIt theme to the latest version.'' @ nl
                     @ c gray ''Hugo module:'' @ nl
                     @ ''  '' @ c blue (''hugo mod get -u github.com/hugo-fixit/FixIt@'' @ version r) @ nl
                     @ ''  '' @ c blue ''hugo mod tidy'' @ nl
                     @ c gray ''Git submodule:'' @ nl
                     @ ''  '' @ c blue ''git submodule update --remote --merge themes/FixIt''),
            TimerStop (t_stop i - t_start i),
            Outro (done_in secs (t_stop i - t_start i))]
         \<and> js_join nl (js_split (CHR 0x0A) (changelog r)) = changelog r"
  using assms
  by (simp add: checkAction_def Let_def release_notes_def upgrade_commands_def module_command_def
      stop_and_report_def timer_stop_def timer_start_def js_join_split nl_def)

theorem check_success_witness:
  "fst (checkAction no_colour secs_text \<lparr>t_start = 0, t_stop = 1500, fetched = Inr release_1_2_3\<rparr>) =
     [TimerStart,
      SpinnerStart spinnerCheck ''Checking the latest version of FixIt theme.'',
      GetLatestRelease ''hugo-fixit'' ''FixIt'',
      LogInfo (''Release Notes: https://example.com/r'' @ nl @ nl @ ''- fix A'' @ nl @ ''- fix B''),
      SpinnerStop spinnerCheck (check_mark @ '' The latest version of FixIt theme is v1.2.3.'') 0,
      LogStep (''You can use commands below to update FixIt theme to the latest version.'' @ nl
               @ ''Hugo module:'' @ nl
               @ ''  hugo mod get -u github.com/hugo-fixit/FixIt@v1.2.3'' @ nl
               @ ''  hugo mod tidy'' @ nl
               @ ''Git submodule:'' @ nl
               @ ''  git submodule update --remote --merge themes/FixIt''),
      TimerStop 1500,
      Outro ''Done in 1.5s'']
   \<and> js_split (CHR 0x0A) (changelog release_1_2_3) = [''- fix A'', ''- fix B'']"
  using check_success
    [of "\<lparr>t_start = 0, t_stop = 1500, fetched = Inr release_1_2_3\<rparr>" release_1_2_3
        no_colour secs_text]
  by (simp add: release_1_2_3_def no_colour_def nl_def done_in_def secs_text_def Let_def)

text \<open>
  C7. After a failed fetch the check action writes the message of the error, writes the
  hint about \<^verbatim>\<open>GITHUB_TOKEN\<close> once, has called the fetch once, and exits with status 1.
\<close>

theorem check_failure:
  assumes "fetched i = Inl e"
  shows "LogError (c red (message e)) \<in> set (fst (checkAction c secs i))
       \<and> count_list (fst (checkAction c secs i)) (LogStep (token_hint c)) = 1
       \<and> filter is_fetch (fst (checkAction c secs i)) = [GetLatestRelease ''hugo-fixit'' ''FixIt'']
       \<and> snd (checkAction c secs i) = Exited 1"
  using assms by (simp add: checkAction_def Let_def)

theorem check_failure_witness:
  "LogError ''fatal: unable to access the remote''
     \<in> set (fst (checkAction no_colour secs_text \<lparr>t_start = 0, t_stop = 1500, fetched = Inl fatal\<rparr>))
   \<and> count_list
        (fst (checkAction no_colour secs_text \<lparr>t_start = 0, t_stop = 1500, fetched = Inl fatal\<rparr>))
        (LogStep (''You can set GITHUB_TOKEN env to avoid GitHub API rate limit.'' @ nl
                  @ ''Run command fixit help check for more details.'' @ nl)) = 1
   \<and> snd (checkAction no_colour secs_text \<lparr>t_start = 0, t_stop = 1500, fetched = Inl fatal\<rparr>)
       = Exited 1"
  using check_failure
    [of "\<lparr>t_start = 0, t_stop = 1500, fetched = Inl fatal\<rparr>" fatal no_colour secs_text]
  by (simp add: fatal_def no_colour_def token_hint_def nl_def)

subsection \<open>The elapsed time\<close>

text \<open>
  C8, as the code has it. Every run of help, every run of check whose fetch succeeded and
  every run of create that reaches the post-init choice calls \<^verbatim>\<open>timer.stop()\<close> once, and
  the last thing the action writes is the outro with the value that call returned. A run
  of check whose fetch failed and a run of create that ends before the post-init choice
  never call \<^verbatim>\<open>timer.stop()\<close> and write no outro, so they report no duration.
\<close>

theorem stop_once_where_reported:
  "filter is_timer_stop (fst (helpAction c secs k command)) = [TimerStop (t_stop k - t_start k)]
   \<and> last (filter is_output (fst (helpAction c secs k command)))
       = Outro (done_in secs (t_stop k - t_start k))
   \<and> (\<forall>r. fetched j = Inr r \<longrightarrow>
        filter is_timer_stop (fst (checkAction c secs j)) = [TimerStop (t_stop j - t_start j)]
        \<and> last (filter is_output (fst (checkAction c secs j)))
            = Outro (done_in secs (t_stop j - t_start j)))
   \<and> (\<forall>e. fetched j = Inl e \<longrightarrow>
        filter is_timer_stop (fst (checkAction c secs j)) = []
        \<and> filter is_outro (fst (checkAction c secs j)) = [])
   \<and> filter is_timer_stop (fst (createAction c secs i))
       = (if reaches_choice i then [TimerStop (t_stop i - t_start i)] else [])
   \<and> filter is_outro (fst (createAction c secs i))
       = (if reaches_choice i then [Outro (done_in secs (t_stop i - t_start i))] else [])
   \<and> (reaches_choice i \<longrightarrow>
        last (filter is_output (fst (createAction c secs i)))
          = Outro (done_in secs (t_stop i - t_start i)))"
proof -
  have h1: "filter is_timer_stop (fst (helpAction c secs k command))
              = [TimerStop (t_stop k - t_start k)]
            \<and> last (filter is_output (fst (helpAction c secs k command)))
                = Outro (done_in secs (t_stop k - t_start k))"
    by (simp add: helpAction_def Let_def filter_stop_and_report timer_start_def)
  have h2: "filter is_timer_stop (fst (checkAction c secs j)) = [TimerStop (t_stop j - t_start j)]
            \<and> last (filter is_output (fst (checkAction c secs j)))
                = Outro (done_in secs (t_stop j - t_start j))"
    if "fetched j = Inr r" for r
    using that by (simp add: checkAction_def Let_def filter_stop_and_report timer_start_def)
  have h3: "filter is_timer_stop (fst (checkAction c secs j)) = []
            \<and> filter is_outro (fst (checkAction c secs j)) = []"
    if "fetched j = Inl e" for e
    using that by (simp add: checkAction_def Let_def)
  from h1 h2 h3 create_without_stop [of i c secs] create_with_stop [of i c secs] show ?thesis
    by (cases "reaches_choice i") simp_all
qed

theorem stop_once_where_reported_witness:
  "filter is_timer_stop (fst (helpAction no_colour secs_text \<lparr>t_start = 0, t_stop = 1500\<rparr> ''check''))
     = [TimerStop 1500]
   \<and> last (filter is_output
              (fst (checkAction no_colour secs_text
                      \<lparr>t_start = 0, t_stop = 1500, fetched = Inr release_1_2_3\<rparr>)))
       = Outro ''Done in 1.5s''
   \<and> filter is_timer_stop
         (fst (checkAction no_colour secs_text \<lparr>t_start = 0, t_stop = 1500, fetched = Inl fatal\<rparr>))
       = []
   \<and> reaches_choice (my_blog\<lparr>run_answer := Value True, hugo_found := True\<rparr>)
   \<and> filter is_timer_stop
         (fst (createAction no_colour secs_text
                 (my_blog\<lparr>run_answer := Value True, hugo_found := True\<rparr>)))
       = [TimerStop 1500]
   \<and> last (filter is_output
              (fst (createAction no_colour secs_text
                      (my_blog\<lparr>run_answer := Value True, hugo_found := True\<rparr>))))
       = Outro ''Done in 1.5s''
   \<and> \<not> reaches_choice (my_blog\<lparr>outcomes := git_ok\<lparr>clone_err := Some fatal\<rparr>\<rparr>)
   \<and> filter is_timer_stop
         (fst (createAction no_colour secs_text
                 (my_blog\<lparr>outcomes := git_ok\<lparr>clone_err := Some fatal\<rparr>\<rparr>)))
       = []
   \<and> filter is_outro
         (fst (createAction no_colour secs_text
                 (my_blog\<lparr>outcomes := git_ok\<lparr>clone_err := Some fatal\<rparr>\<rparr>)))
       = []
   \<and> filter is_outro
         (fst (checkAction no_colour secs_text \<lparr>t_start = 0, t_stop = 1500, fetched = Inl fatal\<rparr>))
       = []"
  using stop_once_where_reported
      [of no_colour secs_text "\<lparr>t_start = 0, t_stop = 1500\<rparr>" "''check''"
          "\<lparr>t_start = 0, t_stop = 1500, fetched = Inr release_1_2_3\<rparr>"
          "my_blog\<lparr>run_answer := Value True, hugo_found := True\<rparr>"]
    stop_once_where_reported
      [of no_colour secs_text "\<lparr>t_start = 0, t_stop = 1500\<rparr>" "''check''"
          "\<lparr>t_start = 0, t_stop = 1500, fetched = Inl fatal\<rparr>"
          "my_blog\<lparr>outcomes := git_ok\<lparr>clone_err := Some fatal\<rparr>\<rparr>"]
  by (simp add: reaches_choice_def my_blog_def git_ok_def validate_def done_in_def
      secs_text_def Let_def)

text \<open>
  C8 as stated covers the failure paths. A run of check whose fetch fails does not call
  \<^verbatim>\<open>timer.stop()\<close> once, and the last thing it writes is the hint, not a duration.
\<close>

theorem stop_on_failure_counterexample:
  "length (filter is_timer_stop
             (fst (checkAction no_colour secs_text
                     \<lparr>t_start = 0, t_stop = 1500, fetched = Inl fatal\<rparr>))) \<noteq> 1
   \<and> last (filter is_output
              (fst (checkAction no_colour secs_text
                      \<lparr>t_start = 0, t_stop = 1500, fetched = Inl fatal\<rparr>)))
       = LogStep (''You can set GITHUB_TOKEN env to avoid GitHub API rate limit.'' @ nl
                  @ ''Run command fixit help check for more details.'' @ nl)"
  by (simp add: checkAction_def Let_def token_hint_def no_colour_def)

subsection \<open>The two implementations\<close>

text \<open>
  C9, as the code has it. For the same submitted names, template and git outcomes the two
  create actions make the same calls to simple-git, in the same order and with the same
  clone options. A run of the first that ends before the post-init choice by returning
  (a failed clone) or by waiting for a name ends in the same way in the second; of a run
  that ends in an unhandled rejection nothing is said. Only the first implementation
  goes on to the post-init choice: the second calls neither shelljs nor \<^verbatim>\<open>process.exit\<close>. The two check actions make the same single fetch
  and end the same way after a successful fetch; after a failed one the second returns
  where the first exits. The two help actions have no effect outside the terminal and
  both return.
\<close>

theorem implementations_agree_on_git:
  "filter is_git (fst (createAction c secs (bin_inputs j k r h)))
     = filter is_git (fst (lib_createAction chalk j))
   \<and> (\<not> reaches_choice (bin_inputs j k r h)
        \<and> (snd (createAction c secs (bin_inputs j k r h)) = Returned
            \<or> snd (createAction c secs (bin_inputs j k r h)) = Waiting) \<longrightarrow>
        snd (createAction c secs (bin_inputs j k r h)) = snd (lib_createAction chalk j))
   \<and> filter is_shell (fst (lib_createAction chalk j)) = []
   \<and> (\<forall>n. snd (lib_createAction chalk j) \<noteq> Exited n)
   \<and> filter is_external (fst (checkAction c secs i))
       = filter is_external (fst (lib_checkAction chalk (fetched i)))
   \<and> (\<forall>rel. fetched i = Inr rel \<longrightarrow>
        snd (checkAction c secs i) = snd (lib_checkAction chalk (fetched i)))
   \<and> snd (lib_checkAction chalk (fetched i)) = Returned
   \<and> filter is_external (fst (helpAction c secs k command)) = []
   \<and> filter is_external (fst (lib_helpAction chalk command)) = []
   \<and> snd (helpAction c secs k command) = snd (lib_helpAction chalk command)"
proof -
  have check_calls: "filter is_external (fst (checkAction c secs i))
                       = filter is_external (fst (lib_checkAction chalk (fetched i)))"
    by (simp add: checkAction_def lib_checkAction_def Let_def filter_stop_and_report
        split: sum.splits)
  have check_ends: "snd (checkAction c secs i) = snd (lib_checkAction chalk (fetched i))"
    if "fetched i = Inr rel" for rel
    using that by (simp add: checkAction_def lib_checkAction_def Let_def)
  have lib_check_returns: "snd (lib_checkAction chalk (fetched i)) = Returned"
    by (simp add: lib_checkAction_def split: sum.splits)
  have help_calls: "filter is_external (fst (helpAction c secs k command)) = []"
    by (simp add: helpAction_def Let_def filter_stop_and_report)
  have lib_help_calls: "filter is_external (fst (lib_helpAction chalk command)) = []"
    by (simp add: lib_helpAction_def)
  have help_ends: "snd (helpAction c secs k command) = snd (lib_helpAction chalk command)"
    by (simp add: helpAction_def lib_helpAction_def Let_def)
  from git_calls_create [of c secs j k r h chalk] outcomes_agree [of c secs j k r h chalk]
    lib_never_shell [of chalk j] lib_never_exits [of chalk j]
    check_calls check_ends lib_check_returns help_calls lib_help_calls help_ends
  show ?thesis by simp
qed

theorem implementations_agree_on_git_witness:
  "filter is_git
     (fst (createAction no_colour secs_text
             (bin_inputs \<lparr>lib_names = [[], ''my-blog''], lib_template = git,
                          lib_outcomes = git_ok\<lparr>raw_err := Some fatal\<rparr>\<rparr>
                         \<lparr>t_start = 0, t_stop = 1500\<rparr> (Value True) True)))
     = [GitClean,
        GitClone ''https://github.com/hugo-fixit/hugo-fixit-starter1.git'' ''my-blog''
          [(''--depth'', Num 1), (''--branch'', Str ''main''), (''--single-branch'', Null),
           (''--recurse-submodules'', Undefined), (''--shallow-submodules'', Undefined)],
        GitCwd ''my-blog'', GitRemoveRemote ''origin'', GitRaw [''update-ref'', ''-d'', ''HEAD'']]
   \<and> filter is_git
       (fst (lib_createAction no_colour
               \<lparr>lib_names = [[], ''my-blog''], lib_template = git,
                lib_outcomes = git_ok\<lparr>raw_err := Some fatal\<rparr>\<rparr>))
     = [GitClean,
        GitClone ''https://github.com/hugo-fixit/hugo-fixit-starter1.git'' ''my-blog''
          [(''--depth'', Num 1), (''--branch'', Str ''main''), (''--single-branch'', Null),
           (''--recurse-submodules'', Undefined), (''--shallow-submodules'', Undefined)],
        GitCwd ''my-blog'', GitRemoveRemote ''origin'', GitRaw [''update-ref'', ''-d'', ''HEAD'']]
   \<and> \<not> reaches_choice
         (bin_inputs \<lparr>lib_names = [''my-blog''], lib_template = go,
                      lib_outcomes = git_ok\<lparr>clone_err := Some fatal\<rparr>\<rparr>
                     \<lparr>t_start = 0, t_stop = 1500\<rparr> (Value True) True)
   \<and> snd (createAction no_colour secs_text
              (bin_inputs \<lparr>lib_names = [''my-blog''], lib_template = go,
                           lib_outcomes = git_ok\<lparr>clone_err := Some fatal\<rparr>\<rparr>
                          \<lparr>t_start = 0, t_stop = 1500\<rparr> (Value True) True)) = Returned
   \<and> snd (lib_createAction no_colour
              \<lparr>lib_names = [''my-blog''], lib_template = go,
               lib_outcomes = git_ok\<lparr>clone_err := Some fatal\<rparr>\<rparr>) = Returned
   \<and> snd (checkAction no_colour secs_text
              \<lparr>t_start = 0, t_stop = 1500, fetched = Inr release_1_2_3\<rparr>) = Returned"
  using implementations_agree_on_git
    [of no_colour secs_text
        "\<lparr>lib_names = [[], ''my-blog''], lib_template = git,
          lib_outcomes = git_ok\<lparr>raw_err := Some fatal\<rparr>\<rparr>"
        "\<lparr>t_start = 0, t_stop = 1500\<rparr>" "Value True" True no_colour
        "\<lparr>t_start = 0, t_stop = 1500, fetched = Inr release_1_2_3\<rparr>" "''check''"]
    implementations_agree_on_git
    [of no_colour secs_text
        "\<lparr>lib_names = [''my-blog''], lib_template = go,
          lib_outcomes = git_ok\<lparr>clone_err := Some fatal\<rparr>\<rparr>"
        "\<lparr>t_start = 0, t_stop = 1500\<rparr>" "Value True" True no_colour
        "\<lparr>t_start = 0, t_stop = 1500, fetched = Inr release_1_2_3\<rparr>" "''check''"]
  by (simp add: reaches_choice_def bin_inputs_def git_ok_def lib_validate_def
      lib_createAction_def lib_download_def lib_initialize_def repositories_def cloneOptions_def
      lib_removeRemote_callback_def create_unfold)

text \<open>
  C9 as stated has the two implementations produce the same external effects. With the
  name \<^verbatim>\<open>my-blog\<close>, the Hugo module template, every git call succeeding, the server
  accepted and hugo found, the first implementation changes directory and launches the
  server; the second does neither.
\<close>

theorem implementations_differ_counterexample:
  "filter is_external
     (fst (createAction no_colour secs_text
             \<lparr>t_start = 0, t_stop = 1500, names = [Value ''my-blog''],
              template_answer = Value go, outcomes = git_ok,
              run_answer = Value True, hugo_found = True\<rparr>))
   \<noteq> filter is_external
       (fst (lib_createAction no_colour
               \<lparr>lib_names = [''my-blog''], lib_template = go, lib_outcomes = git_ok\<rparr>))"
  by (simp add: create_unfold git_ok_def lib_validate_def lib_createAction_def lib_download_def
      lib_initialize_def lib_first_commit_def lib_removeRemote_callback_def)

end
